theory Spec2Isabelle
  imports Main
begin

section \<open>Taxi booking system: data holders\<close>

text \<open>
  The classes \<^verbatim>\<open>Booking\<close> and \<^verbatim>\<open>Location\<close> of \<^verbatim>\<open>taxi_booking_system.py\<close> are
  plain attribute holders: a constructor that stores its arguments, and one getter and
  one setter per attribute. A Python object is mutated in place; the model passes the
  record in and returns the updated record. No method of the two classes contains a
  \<^verbatim>\<open>raise\<close>, a test or a call that can fail, so the setters are total functions and
  need no error result.
\<close>

subsection \<open>Booking\<close>

text \<open>
  Modelled from the spec: the source declares no type for the attribute
  \<^verbatim>\<open>book_status\<close> (it stores whatever the caller passes); the five values are the
  states the specification names for a booking.
\<close>

datatype book_status = Requested | Assigned | EnRoute | Completed | Cancelled

record booking =
  booking_id :: nat
  book_status :: book_status
  customer_id :: nat
  driver_id :: "nat option"
  location_id :: nat
  travel_time :: nat

definition Booking_init ::
  "nat \<Rightarrow> book_status \<Rightarrow> nat \<Rightarrow> nat option \<Rightarrow> nat \<Rightarrow> nat \<Rightarrow> booking" where
  "Booking_init bid st cid did lid tt =
     \<lparr>booking_id = bid, book_status = st, customer_id = cid, driver_id = did,
      location_id = lid, travel_time = tt\<rparr>"

definition get_booking_id :: "booking \<Rightarrow> nat" where
  "get_booking_id b = booking_id b"

definition set_booking_id :: "nat \<Rightarrow> booking \<Rightarrow> booking" where
  "set_booking_id new_booking_id b = b\<lparr>booking_id := new_booking_id\<rparr>"

definition get_book_status :: "booking \<Rightarrow> book_status" where
  "get_book_status b = book_status b"

definition set_book_status :: "book_status \<Rightarrow> booking \<Rightarrow> booking" where
  "set_book_status new_book_status b = b\<lparr>book_status := new_book_status\<rparr>"

definition get_customer_id :: "booking \<Rightarrow> nat" where
  "get_customer_id b = customer_id b"

definition set_customer_id :: "nat \<Rightarrow> booking \<Rightarrow> booking" where
  "set_customer_id new_customer_id b = b\<lparr>customer_id := new_customer_id\<rparr>"

definition get_driver_id :: "booking \<Rightarrow> nat option" where
  "get_driver_id b = driver_id b"

definition set_driver_id :: "nat option \<Rightarrow> booking \<Rightarrow> booking" where
  "set_driver_id new_driver_id b = b\<lparr>driver_id := new_driver_id\<rparr>"

definition get_location_id :: "booking \<Rightarrow> nat" where
  "get_location_id b = location_id b"

definition set_location_id :: "nat \<Rightarrow> booking \<Rightarrow> booking" where
  "set_location_id new_location_id b = b\<lparr>location_id := new_location_id\<rparr>"

definition get_travel_time :: "booking \<Rightarrow> nat" where
  "get_travel_time b = travel_time b"

definition set_travel_time :: "nat \<Rightarrow> booking \<Rightarrow> booking" where
  "set_travel_time new_travel_time b = b\<lparr>travel_time := new_travel_time\<rparr>"

text \<open>
  \<^verbatim>\<open>arrange_booking\<close> is a static method: it prints one line and has no access to
  any booking. Standard output is the list of the strings printed so far.
\<close>

definition arrange_booking :: "string list \<Rightarrow> string list" where
  "arrange_booking out = out @ [''arranged'']"

text \<open>
  Every way the class offers to change a booking after its construction, as one
  datatype, so that a statement can range over all of them. The getters return an
  attribute and change nothing; they are the functions \<open>get_\<dots>\<close> above.
\<close>

datatype booking_op =
    SetBookingId nat
  | SetBookStatus book_status
  | SetCustomerId nat
  | SetDriverId "nat option"
  | SetLocationId nat
  | SetTravelTime nat
  | ArrangeBooking

fun booking_call :: "booking_op \<Rightarrow> booking \<times> string list \<Rightarrow> booking \<times> string list" where
  "booking_call (SetBookingId v) (b, out) = (set_booking_id v b, out)"
| "booking_call (SetBookStatus v) (b, out) = (set_book_status v b, out)"
| "booking_call (SetCustomerId v) (b, out) = (set_customer_id v b, out)"
| "booking_call (SetDriverId v) (b, out) = (set_driver_id v b, out)"
| "booking_call (SetLocationId v) (b, out) = (set_location_id v b, out)"
| "booking_call (SetTravelTime v) (b, out) = (set_travel_time v b, out)"
| "booking_call ArrangeBooking (b, out) = (b, arrange_booking out)"

subsection \<open>Location\<close>

text \<open>
  A coordinate is a Python tuple of numbers that the code stores and never inspects;
  the constructor's default for each of the three is the empty tuple \<^verbatim>\<open>()\<close>, the
  empty list here. \<^verbatim>\<open>Location\<close> has attributes \<^verbatim>\<open>location_id\<close> and
  \<^verbatim>\<open>booking_id\<close> like \<^verbatim>\<open>Booking\<close>; the fields and accessors of the two classes
  that share a name carry the prefix \<open>Location_\<close> here.
\<close>

type_synonym latlng = "int list"

record location =
  Location_location_id :: nat
  Location_booking_id :: nat
  origin_latlng :: latlng
  destination_latlng :: latlng
  current_latlng :: latlng

definition Location_init :: "nat \<Rightarrow> nat \<Rightarrow> latlng \<Rightarrow> latlng \<Rightarrow> latlng \<Rightarrow> location" where
  "Location_init lid bid origin destination current =
     \<lparr>Location_location_id = lid, Location_booking_id = bid, origin_latlng = origin,
      destination_latlng = destination, current_latlng = current\<rparr>"

definition Location_get_location_id :: "location \<Rightarrow> nat" where
  "Location_get_location_id l = Location_location_id l"

definition Location_set_location_id :: "nat \<Rightarrow> location \<Rightarrow> location" where
  "Location_set_location_id new_location_id l = l\<lparr>Location_location_id := new_location_id\<rparr>"

definition Location_get_booking_id :: "location \<Rightarrow> nat" where
  "Location_get_booking_id l = Location_booking_id l"

definition Location_set_booking_id :: "nat \<Rightarrow> location \<Rightarrow> location" where
  "Location_set_booking_id new_booking_id l = l\<lparr>Location_booking_id := new_booking_id\<rparr>"

definition get_origin_latlng :: "location \<Rightarrow> latlng" where
  "get_origin_latlng l = origin_latlng l"

definition set_origin_latlng :: "latlng \<Rightarrow> location \<Rightarrow> location" where
  "set_origin_latlng new_origin_latlng l = l\<lparr>origin_latlng := new_origin_latlng\<rparr>"

definition get_destination_latlng :: "location \<Rightarrow> latlng" where
  "get_destination_latlng l = destination_latlng l"

definition set_destination_latlng :: "latlng \<Rightarrow> location \<Rightarrow> location" where
  "set_destination_latlng new_destination_latlng l =
     l\<lparr>destination_latlng := new_destination_latlng\<rparr>"

definition get_current_latlng :: "location \<Rightarrow> latlng" where
  "get_current_latlng l = current_latlng l"

definition set_current_latlng :: "latlng \<Rightarrow> location \<Rightarrow> location" where
  "set_current_latlng new_current_latlng l = l\<lparr>current_latlng := new_current_latlng\<rparr>"

text \<open>\<^verbatim>\<open>calculate_distance\<close> is a static method that prints one line.\<close>

definition calculate_distance :: "string list \<Rightarrow> string list" where
  "calculate_distance out = out @ [''distance: '']"

datatype location_op =
    LocSetLocationId nat
  | LocSetBookingId nat
  | SetOriginLatlng latlng
  | SetDestinationLatlng latlng
  | SetCurrentLatlng latlng
  | CalculateDistance

fun location_call :: "location_op \<Rightarrow> location \<times> string list \<Rightarrow> location \<times> string list" where
  "location_call (LocSetLocationId v) (l, out) = (Location_set_location_id v l, out)"
| "location_call (LocSetBookingId v) (l, out) = (Location_set_booking_id v l, out)"
| "location_call (SetOriginLatlng v) (l, out) = (set_origin_latlng v l, out)"
| "location_call (SetDestinationLatlng v) (l, out) = (set_destination_latlng v l, out)"
| "location_call (SetCurrentLatlng v) (l, out) = (set_current_latlng v l, out)"
| "location_call CalculateDistance (l, out) = (l, calculate_distance out)"

section \<open>The observer pattern for location update notifications\<close>

subsection \<open>Objects and the shared state\<close>

text \<open>
  The exceptions the modelled code can raise: \<^verbatim>\<open>TypeError\<close> (a call whose arguments
  do not fit the signature, an ordering comparison with \<^verbatim>\<open>None\<close>) and
  \<^verbatim>\<open>ValueError\<close> (\<^verbatim>\<open>list.remove\<close> of an absent element).
\<close>

datatype error = TypeError | ValueError

text \<open>
  The three concrete observer classes of the source. None of them defines
  \<^verbatim>\<open>__eq__\<close>, so two observers are equal exactly when they are the same object: an
  observer is its object identity together with its class.
\<close>

datatype observer_class = CustomerObserver | DriverObserver | OperatorObserver

type_synonym observer = "nat \<times> observer_class"

text \<open>
  The state that the methods of \<^verbatim>\<open>ConcreteNotificationManager\<close> read and write.
  \<^item> \<open>observers\<close> is the class attribute \<^verbatim>\<open>_observers\<close>: one list object, created
    once in the class body. No statement of the source assigns \<^verbatim>\<open>_observers\<close> on
    an instance, so there is this one list and no other.
  \<^item> \<open>mgr_state\<close> gives, for each manager instance (by object identity), the value
    that \<^verbatim>\<open>self._state\<close> reads: the instance attribute once
    \<^verbatim>\<open>update_information\<close> has assigned it, and before that the class attribute,
    which is \<^verbatim>\<open>None\<close> (\<open>None\<close> here).
  \<^item> \<open>stdout\<close> holds the strings passed to \<^verbatim>\<open>print\<close>, in order.
  \<^item> \<open>update_calls\<close> is not a variable of the program: it records the receiver of
    each \<^verbatim>\<open>observer.update()\<close> call that \<^verbatim>\<open>notify\<close> has made, in order, so
    that delivery can be stated.
\<close>

record world =
  observers :: "observer list"
  mgr_state :: "nat \<Rightarrow> int option"
  stdout :: "string list"
  update_calls :: "observer list"

definition print :: "string \<Rightarrow> world \<Rightarrow> world" where
  "print s w = w\<lparr>stdout := stdout w @ [s]\<rparr>"

text \<open>
  Attribute lookup on a manager instance: \<^verbatim>\<open>self._observers\<close> finds nothing on the
  instance and returns the list of the class, whichever instance \<open>self\<close> is;
  \<^verbatim>\<open>self._state\<close> is per instance.
\<close>

definition observers_of :: "nat \<Rightarrow> world \<Rightarrow> observer list" where
  "observers_of self w = observers w"

definition state_of :: "nat \<Rightarrow> world \<Rightarrow> int option" where
  "state_of self w = mgr_state w self"

subsection \<open>Python primitives the methods use\<close>

text \<open>\<^verbatim>\<open>list.remove(x)\<close>: drops the first element equal to \<open>x\<close>, raises when there is none.\<close>

fun list_remove :: "'a \<Rightarrow> 'a list \<Rightarrow> error + 'a list" where
  "list_remove x [] = Inl ValueError"
| "list_remove x (y # ys) =
     (if y = x then Inr ys
      else (case list_remove x ys of Inl e \<Rightarrow> Inl e | Inr zs \<Rightarrow> Inr (y # zs)))"

text \<open>
  The statement \<^verbatim>\<open>for x in xs: body\<close> with a body that may raise: the body runs on
  the elements in order, each time in the state the previous run left; an exception
  that leaves the body ends the loop and leaves the loop, and the body runs on no
  further element.
\<close>

fun for_each ::
  "('a \<Rightarrow> world \<Rightarrow> error \<times> world + world) \<Rightarrow> 'a list \<Rightarrow> world \<Rightarrow> error \<times> world + world" where
  "for_each body [] w = Inr w"
| "for_each body (x # xs) w =
     (case body x w of Inl ew \<Rightarrow> Inl ew | Inr w' \<Rightarrow> for_each body xs w')"

text \<open>
  Comparisons of a value that is an integer or \<^verbatim>\<open>None\<close> with an integer literal:
  \<^verbatim>\<open>==\<close> is defined for every pair of objects, \<^verbatim>\<open><\<close> and \<^verbatim>\<open>>=\<close> raise
  \<^verbatim>\<open>TypeError\<close> on \<^verbatim>\<open>None\<close>.
\<close>

definition py_eq :: "int option \<Rightarrow> int \<Rightarrow> bool" where
  "py_eq v k = (case v of None \<Rightarrow> False | Some i \<Rightarrow> i = k)"

definition py_lt :: "int option \<Rightarrow> int \<Rightarrow> error + bool" where
  "py_lt v k = (case v of None \<Rightarrow> Inl TypeError | Some i \<Rightarrow> Inr (i < k))"

definition py_ge :: "int option \<Rightarrow> int \<Rightarrow> error + bool" where
  "py_ge v k = (case v of None \<Rightarrow> Inl TypeError | Some i \<Rightarrow> Inr (i \<ge> k))"

text \<open>\<^verbatim>\<open>str\<close> of an integer, for the f-string of \<^verbatim>\<open>update_information\<close>.\<close>

fun str_nat :: "nat \<Rightarrow> string" where
  "str_nat n =
     (if n < 10 then [''0123456789'' ! n]
      else str_nat (n div 10) @ [''0123456789'' ! (n mod 10)])"

declare str_nat.simps [simp del]

definition str_int :: "int \<Rightarrow> string" where
  "str_int i = (if i < 0 then CHR ''-'' # str_nat (nat (- i)) else str_nat (nat i))"

definition str_state :: "int option \<Rightarrow> string" where
  "str_state v = (case v of None \<Rightarrow> ''None'' | Some i \<Rightarrow> str_int i)"

subsection \<open>The observers\<close>

text \<open>
  The body of each class's \<^verbatim>\<open>update(self, notification_manager)\<close>, run with the
  manager \<open>nm\<close> bound to the parameter. In \<^verbatim>\<open>a == 0 or a >= 2\<close> the second
  comparison is evaluated only when the first is false.
\<close>

fun update :: "observer_class \<Rightarrow> nat \<Rightarrow> world \<Rightarrow> error \<times> world + world" where
  "update CustomerObserver nm w =
     (case py_lt (state_of nm w) 3 of
        Inl e \<Rightarrow> Inl (e, w)
      | Inr c \<Rightarrow> Inr (if c then print ''CustomerObserver: Reacted to the event'' w else w))"
| "update DriverObserver nm w =
     (if py_eq (state_of nm w) 0
      then Inr (print ''DriverObserver: Reacted to the event'' w)
      else (case py_ge (state_of nm w) 2 of
              Inl e \<Rightarrow> Inl (e, w)
            | Inr c \<Rightarrow> Inr (if c then print ''DriverObserver: Reacted to the event'' w else w)))"
| "update OperatorObserver nm w =
     (if py_eq (state_of nm w) 0
      then Inr (print ''OperatorObserver: Reacted to the event'' w)
      else (case py_ge (state_of nm w) 2 of
              Inl e \<Rightarrow> Inl (e, w)
            | Inr c \<Rightarrow> Inr (if c then print ''OperatorObserver: Reacted to the event'' w else w)))"

text \<open>
  A call \<^verbatim>\<open>ob.update(*args)\<close>. Each of the three classes declares exactly one
  parameter besides \<^verbatim>\<open>self\<close>, with no default: the call binds it when one argument
  is passed, and raises \<^verbatim>\<open>TypeError\<close>, before the body runs, for any other number.
\<close>

definition call_update :: "observer \<Rightarrow> nat list \<Rightarrow> world \<Rightarrow> error \<times> world + world" where
  "call_update ob args w =
     (case args of [nm] \<Rightarrow> update (snd ob) nm w | _ \<Rightarrow> Inl (TypeError, w))"

subsection \<open>ConcreteNotificationManager\<close>

text \<open>
  A method that raises leaves behind what it had done up to there: the error comes
  with the world at the moment of the raise.
\<close>

definition attach :: "nat \<Rightarrow> observer \<Rightarrow> world \<Rightarrow> world" where
  "attach self ob w =
     (let w1 = print ''NotificationManager: Attached an observer.'' w
      in w1\<lparr>observers := observers_of self w1 @ [ob]\<rparr>)"

definition detach :: "nat \<Rightarrow> observer \<Rightarrow> world \<Rightarrow> error \<times> world + world" where
  "detach self ob w =
     (case list_remove ob (observers_of self w) of
        Inl e \<Rightarrow> Inl (e, w)
      | Inr obs \<Rightarrow> Inr (w\<lparr>observers := obs\<rparr>))"

text \<open>
  The body of the loop of \<^verbatim>\<open>notify\<close> is the call \<^verbatim>\<open>observer.update()\<close>, with
  no argument. The loop is a bare \<^verbatim>\<open>for\<close> statement: no \<^verbatim>\<open>try\<close> surrounds the
  call or the loop.
\<close>

definition notify_step :: "observer \<Rightarrow> world \<Rightarrow> error \<times> world + world" where
  "notify_step ob w = call_update ob [] (w\<lparr>update_calls := update_calls w @ [ob]\<rparr>)"

definition notify :: "nat \<Rightarrow> world \<Rightarrow> error \<times> world + world" where
  "notify self w =
     (let w1 = print ''NotificationManager: Notifying observers...'' w
      in for_each notify_step (observers_of self w1) w1)"

text \<open>
  \<^verbatim>\<open>update_information\<close>; \<open>r\<close> is the value \<^verbatim>\<open>randrange(0, 10)\<close> returns, an
  integer with \<open>0 \<le> r < 10\<close>. The first string printed begins with a line feed.
\<close>

definition update_information :: "nat \<Rightarrow> int \<Rightarrow> world \<Rightarrow> error \<times> world + world" where
  "update_information self r w =
     (let w1 = print (CHR 0x0A # ''NotificationManager: location updated.'') w;
          w2 = w1\<lparr>mgr_state := (mgr_state w1)(self := Some r)\<rparr>;
          w3 = print (''NotificationManager: My state has just changed to: ''
                      @ str_state (state_of self w2)) w2
      in notify self w3)"

text \<open>
  What a call that may raise has produced: the exception, if any, and the world it
  leaves behind, raised or not.
\<close>

definition raised :: "error \<times> world + world \<Rightarrow> error option" where
  "raised res = (case res of Inl (e, w) \<Rightarrow> Some e | Inr w \<Rightarrow> None)"

definition world_after :: "error \<times> world + world \<Rightarrow> world" where
  "world_after res = (case res of Inl (e, w) \<Rightarrow> w | Inr w \<Rightarrow> w)"

text \<open>The state when the module has been loaded and nothing has been called yet.\<close>

definition world0 :: world where
  "world0 = \<lparr>observers = [], mgr_state = (\<lambda>_. None), stdout = [], update_calls = []\<rparr>"

section \<open>Properties\<close>

subsection \<open>Auxiliary facts about the notification manager\<close>

text \<open>
  \<^verbatim>\<open>list.remove\<close> agrees with \<open>remove1\<close> where the element occurs. A call of
  \<^verbatim>\<open>update\<close> with no argument raises before the body runs. A loop over two lists
  in a row is the loop over the first followed, if that returns, by the loop over the
  second.
\<close>

lemma list_remove_remove1:
  "list_remove x xs = (if x \<in> set xs then Inr (remove1 x xs) else Inl ValueError)"
  by (induction xs) auto

lemma call_update_no_argument: "call_update ob [] w = Inl (TypeError, w)"
  by (simp add: call_update_def)

lemma notify_step_raises:
  "notify_step ob w = Inl (TypeError, w\<lparr>update_calls := update_calls w @ [ob]\<rparr>)"
  by (simp add: notify_step_def call_update_no_argument)


lemma for_each_notify_step_nonempty:
  "obs \<noteq> [] \<Longrightarrow>
     for_each notify_step obs w
       = Inl (TypeError, w\<lparr>update_calls := update_calls w @ [hd obs]\<rparr>)"
  by (cases obs) (simp_all add: notify_step_raises)

lemma notify_nonempty:
  "observers w \<noteq> [] \<Longrightarrow>
     notify self w
       = Inl (TypeError,
              (print ''NotificationManager: Notifying observers...'' w)
                \<lparr>update_calls := update_calls w @ [hd (observers w)]\<rparr>)"
  by (simp add: notify_def observers_of_def print_def for_each_notify_step_nonempty)

subsection \<open>The booking\<close>

text \<open>
  Claim C1, as the specification states it: a booking whose status is Completed or
  Cancelled cannot be changed any more, in its status or in any other attribute. The
  code has no such guard. A completed booking is put back to Requested by the status
  setter, and the other setters change its other attributes.
\<close>

theorem C1_terminal_status_overwritten:
  "get_book_status (Booking_init 1 Completed 7 (Some 3) 1 20) = Completed
   \<and> get_book_status (set_book_status Requested (Booking_init 1 Completed 7 (Some 3) 1 20))
       = Requested
   \<and> get_book_status (set_book_status EnRoute (Booking_init 2 Cancelled 7 None 2 20))
       = EnRoute
   \<and> get_travel_time (Booking_init 1 Completed 7 (Some 3) 1 20) = 20
   \<and> get_travel_time (set_travel_time 5 (Booking_init 1 Completed 7 (Some 3) 1 20)) = 5
   \<and> get_driver_id (Booking_init 1 Completed 7 (Some 3) 1 20) = Some 3
   \<and> get_driver_id (set_driver_id None (Booking_init 1 Completed 7 (Some 3) 1 20)) = None"
  by (simp add: get_book_status_def set_book_status_def Booking_init_def
        get_travel_time_def set_travel_time_def get_driver_id_def set_driver_id_def)

text \<open>
  Claim C1, amended: the setters of a booking are unguarded and never fail. Whatever
  the current status is, a terminal one included, each setter stores the given value
  in its own attribute and leaves every other attribute as it was: after any operation
  of the class, each attribute holds the value just given to its own setter, or else
  the value it held before. In particular the status setter moves a booking out of
  Completed or Cancelled. \<^verbatim>\<open>arrange_booking\<close> prints and changes no attribute.
\<close>

theorem C1_setters_unguarded:
  "get_booking_id (fst (booking_call op (b, out)))
     = (case op of SetBookingId v \<Rightarrow> v | _ \<Rightarrow> get_booking_id b)
   \<and> get_book_status (fst (booking_call op (b, out)))
     = (case op of SetBookStatus v \<Rightarrow> v | _ \<Rightarrow> get_book_status b)
   \<and> get_customer_id (fst (booking_call op (b, out)))
     = (case op of SetCustomerId v \<Rightarrow> v | _ \<Rightarrow> get_customer_id b)
   \<and> get_driver_id (fst (booking_call op (b, out)))
     = (case op of SetDriverId v \<Rightarrow> v | _ \<Rightarrow> get_driver_id b)
   \<and> get_location_id (fst (booking_call op (b, out)))
     = (case op of SetLocationId v \<Rightarrow> v | _ \<Rightarrow> get_location_id b)
   \<and> get_travel_time (fst (booking_call op (b, out)))
     = (case op of SetTravelTime v \<Rightarrow> v | _ \<Rightarrow> get_travel_time b)
   \<and> snd (booking_call op (b, out))
     = (case op of ArrangeBooking \<Rightarrow> out @ [''arranged''] | _ \<Rightarrow> out)
   \<and> get_book_status (set_book_status s b) = s
   \<and> get_booking_id (set_book_status s b) = get_booking_id b
   \<and> get_customer_id (set_book_status s b) = get_customer_id b
   \<and> get_driver_id (set_book_status s b) = get_driver_id b
   \<and> get_location_id (set_book_status s b) = get_location_id b
   \<and> get_travel_time (set_book_status s b) = get_travel_time b"
proof -
  note getters = get_booking_id_def get_book_status_def get_customer_id_def
    get_driver_id_def get_location_id_def get_travel_time_def
  note setters = set_booking_id_def set_book_status_def set_customer_id_def
    set_driver_id_def set_location_id_def set_travel_time_def
  have "get_booking_id (fst (booking_call op (b, out)))
          = (case op of SetBookingId v \<Rightarrow> v | _ \<Rightarrow> get_booking_id b)"
    by (cases op) (simp_all add: getters setters)
  moreover have "get_book_status (fst (booking_call op (b, out)))
          = (case op of SetBookStatus v \<Rightarrow> v | _ \<Rightarrow> get_book_status b)"
    by (cases op) (simp_all add: getters setters)
  moreover have "get_customer_id (fst (booking_call op (b, out)))
          = (case op of SetCustomerId v \<Rightarrow> v | _ \<Rightarrow> get_customer_id b)"
    by (cases op) (simp_all add: getters setters)
  moreover have "get_driver_id (fst (booking_call op (b, out)))
          = (case op of SetDriverId v \<Rightarrow> v | _ \<Rightarrow> get_driver_id b)"
    by (cases op) (simp_all add: getters setters)
  moreover have "get_location_id (fst (booking_call op (b, out)))
          = (case op of SetLocationId v \<Rightarrow> v | _ \<Rightarrow> get_location_id b)"
    by (cases op) (simp_all add: getters setters)
  moreover have "get_travel_time (fst (booking_call op (b, out)))
          = (case op of SetTravelTime v \<Rightarrow> v | _ \<Rightarrow> get_travel_time b)"
    by (cases op) (simp_all add: getters setters)
  moreover have "snd (booking_call op (b, out))
          = (case op of ArrangeBooking \<Rightarrow> out @ [''arranged''] | _ \<Rightarrow> out)"
    by (cases op) (simp_all add: arrange_booking_def)
  ultimately show ?thesis
    by (simp add: getters set_book_status_def)
qed

theorem C1_setters_unguarded_witness:
  "get_book_status
     (fst (booking_call (SetBookStatus Assigned)
        (Booking_init 1 Cancelled 7 None 1 20, []))) = Assigned
   \<and> get_book_status
     (fst (booking_call (SetTravelTime 5)
        (Booking_init 1 Cancelled 7 None 1 20, []))) = Cancelled
   \<and> get_travel_time
     (fst (booking_call (SetTravelTime 5)
        (Booking_init 1 Cancelled 7 None 1 20, []))) = 5
   \<and> get_customer_id
     (fst (booking_call (SetCustomerId 8)
        (Booking_init 1 Completed 7 (Some 3) 1 20, []))) = 8"
  using C1_setters_unguarded
          [of "SetBookStatus Assigned" "Booking_init 1 Cancelled 7 None 1 20" "[]" Assigned]
        C1_setters_unguarded
          [of "SetTravelTime 5" "Booking_init 1 Cancelled 7 None 1 20" "[]" Assigned]
        C1_setters_unguarded
          [of "SetCustomerId 8" "Booking_init 1 Completed 7 (Some 3) 1 20" "[]" Assigned]
  by (simp add: get_book_status_def get_travel_time_def get_customer_id_def Booking_init_def)

subsection \<open>The location record\<close>

text \<open>
  Claim C2, as the specification states it: the current coordinate can be updated only
  while the booking is Assigned or EnRoute, and the update is refused otherwise. The
  code has no such guard: \<^verbatim>\<open>set_current_latlng\<close> takes a coordinate and nothing
  else. For a booking that is still Requested, the current coordinate of its location
  is replaced.
\<close>

theorem C2_current_set_while_requested:
  "get_book_status (Booking_init 1 Requested 7 None 1 20) = Requested
   \<and> Location_get_booking_id (Location_init 1 1 [0, 0] [5, 5] [0, 0])
       = get_booking_id (Booking_init 1 Requested 7 None 1 20)
   \<and> get_current_latlng (Location_init 1 1 [0, 0] [5, 5] [0, 0]) = [0, 0]
   \<and> get_current_latlng (set_current_latlng [1, 1] (Location_init 1 1 [0, 0] [5, 5] [0, 0]))
       = [1, 1]"
  by (simp add: get_book_status_def Booking_init_def Location_get_booking_id_def
        Location_init_def get_booking_id_def get_current_latlng_def set_current_latlng_def)

text \<open>
  Claim C2, amended: \<^verbatim>\<open>set_current_latlng\<close> is permitted in every booking status. It
  cannot fail and does not read a status (its only inputs are the location and the new
  coordinate); it always stores the new coordinate as the current one and leaves the
  other attributes of the location as they were.
\<close>

theorem C2_set_current_latlng_unguarded:
  "get_current_latlng (set_current_latlng c l) = c
   \<and> get_origin_latlng (set_current_latlng c l) = get_origin_latlng l
   \<and> get_destination_latlng (set_current_latlng c l) = get_destination_latlng l
   \<and> Location_get_location_id (set_current_latlng c l) = Location_get_location_id l
   \<and> Location_get_booking_id (set_current_latlng c l) = Location_get_booking_id l
   \<and> location_call (SetCurrentLatlng c) (l, out) = (l\<lparr>current_latlng := c\<rparr>, out)"
  by (simp add: get_current_latlng_def set_current_latlng_def get_origin_latlng_def
        get_destination_latlng_def Location_get_location_id_def Location_get_booking_id_def)

text \<open>
  Claim C6, as the specification states it: origin and destination never change after
  creation. The class has a public setter for each, and the setter overwrites.
\<close>

theorem C6_origin_destination_overwritten:
  "get_origin_latlng (Location_init 1 1 [0, 0] [5, 5] [0, 0]) = [0, 0]
   \<and> get_origin_latlng (set_origin_latlng [9, 9] (Location_init 1 1 [0, 0] [5, 5] [0, 0])) = [9, 9]
   \<and> get_destination_latlng (Location_init 1 1 [0, 0] [5, 5] [0, 0]) = [5, 5]
   \<and> get_destination_latlng
        (set_destination_latlng [] (Location_init 1 1 [0, 0] [5, 5] [0, 0])) = []"
  by (simp add: get_origin_latlng_def set_origin_latlng_def get_destination_latlng_def
        set_destination_latlng_def Location_init_def)

text \<open>
  Claim C6, amended: the origin of a location is changed by \<^verbatim>\<open>set_origin_latlng\<close>
  and by no other operation of the class, and the destination by
  \<^verbatim>\<open>set_destination_latlng\<close> and by no other; each of the two setters stores the
  value it is given, unconditionally.
\<close>

theorem C6_origin_destination_changed_by_own_setter_only:
  "get_origin_latlng (fst (location_call op (l, out)))
     = (case op of SetOriginLatlng v \<Rightarrow> v | _ \<Rightarrow> get_origin_latlng l)
   \<and> get_destination_latlng (fst (location_call op (l, out)))
     = (case op of SetDestinationLatlng v \<Rightarrow> v | _ \<Rightarrow> get_destination_latlng l)"
  by (cases op)
     (simp_all add: get_origin_latlng_def get_destination_latlng_def
        Location_set_location_id_def Location_set_booking_id_def set_origin_latlng_def
        set_destination_latlng_def set_current_latlng_def)

subsection \<open>Subscribing and unsubscribing\<close>

text \<open>
  Claim C3, as the specification states it: subscribing the same observer twice leaves
  the subscriber list as subscribing once does. \<^verbatim>\<open>attach\<close> appends without looking:
  after two calls with the same observer the list holds it twice.
\<close>

theorem C3_attach_twice_two_entries:
  "observers_of 0 (attach 0 (1, CustomerObserver) world0) = [(1, CustomerObserver)]
   \<and> observers_of 0 (attach 0 (1, CustomerObserver) (attach 0 (1, CustomerObserver) world0))
       = [(1, CustomerObserver), (1, CustomerObserver)]"
  by (simp add: attach_def observers_of_def print_def world0_def)

text \<open>
  Claim C3, amended: \<^verbatim>\<open>attach\<close> is not idempotent. Every call appends the observer
  at the end of the subscriber list, so the number of its entries for that observer
  grows by one with each call, and two calls with the same observer leave two entries.
\<close>

theorem C3_attach_appends:
  "observers_of m (attach self ob w) = observers_of m w @ [ob]
   \<and> count_list (observers_of m (attach self ob w)) ob = Suc (count_list (observers_of m w) ob)
   \<and> observers_of m (attach self ob (attach self ob w)) = observers_of m w @ [ob, ob]"
  by (simp add: attach_def observers_of_def print_def)

text \<open>
  Claim C7, as the specification states it: detaching an observer that is not subscribed
  returns without error. \<^verbatim>\<open>detach\<close> is a bare \<^verbatim>\<open>list.remove\<close>, which raises
  \<^verbatim>\<open>ValueError\<close> when the element is absent.
\<close>

theorem C7_detach_absent_raises_example:
  "(1, DriverObserver) \<notin> set (observers_of 0 (attach 0 (2, CustomerObserver) world0))
   \<and> raised (detach 0 (1, DriverObserver) (attach 0 (2, CustomerObserver) world0))
       = Some ValueError
   \<and> detach 0 (1, DriverObserver) world0 = Inl (ValueError, world0)"
  by (simp add: detach_def attach_def observers_of_def print_def world0_def raised_def)

text \<open>
  Claim C7, amended: \<^verbatim>\<open>detach\<close> of an observer that is not in the subscriber list
  raises \<^verbatim>\<open>ValueError\<close>; the subscriber list, and the rest of the state, is left
  unchanged.
\<close>

theorem C7_detach_absent_ValueError:
  "ob \<notin> set (observers_of self w) \<Longrightarrow> detach self ob w = Inl (ValueError, w)"
  by (simp add: detach_def list_remove_remove1)

theorem C7_detach_absent_ValueError_witness:
  "detach 0 (1, DriverObserver) (attach 0 (2, CustomerObserver) world0)
     = Inl (ValueError, attach 0 (2, CustomerObserver) world0)"
  using C7_detach_absent_ValueError
          [of "(1, DriverObserver)" 0 "attach 0 (2, CustomerObserver) world0"]
  by (simp add: attach_def observers_of_def print_def world0_def)

subsection \<open>Notification\<close>

text \<open>
  Claim C4: a published event reaches every current subscriber, once each. The code
  means to do so (\<^verbatim>\<open>notify\<close> is documented as triggering an update in each
  subscriber, and its loop runs over all of them), but its call passes no argument to
  a method that requires one. With two observers attached, \<^verbatim>\<open>notify\<close> raises at
  the call on the first; the second, a current subscriber, gets no call, and no
  observer has reacted.
\<close>

theorem C4_notify_stops_at_first_subscriber:
  "observers_of 0 (attach 0 (2, CustomerObserver) (attach 0 (1, DriverObserver) world0))
       = [(1, DriverObserver), (2, CustomerObserver)]
   \<and> raised (notify 0 (attach 0 (2, CustomerObserver) (attach 0 (1, DriverObserver) world0)))
       = Some TypeError
   \<and> update_calls
        (world_after
          (notify 0 (attach 0 (2, CustomerObserver) (attach 0 (1, DriverObserver) world0))))
       = [(1, DriverObserver)]
   \<and> stdout
        (world_after
          (notify 0 (attach 0 (2, CustomerObserver) (attach 0 (1, DriverObserver) world0))))
       = [''NotificationManager: Attached an observer.'',
          ''NotificationManager: Attached an observer.'',
          ''NotificationManager: Notifying observers...'']"
  by (simp add: notify_def notify_step_def attach_def observers_of_def print_def world0_def
        call_update_def world_after_def raised_def)




text \<open>
  Claim C8, as the specification states it: a driver or operator observer reacts whatever
  the manager's state is. Both classes test the state before they react, and the test
  fails for the state 1: after \<^verbatim>\<open>update_information\<close> has drawn 1, running either
  \<^verbatim>\<open>update\<close> with that manager prints nothing.
\<close>

theorem C8_no_reaction_in_state_1:
  "raised (update_information 0 1 world0) = None
   \<and> state_of 0 (world_after (update_information 0 1 world0)) = Some 1
   \<and> update DriverObserver 0 (world_after (update_information 0 1 world0))
       = Inr (world_after (update_information 0 1 world0))
   \<and> update OperatorObserver 0 (world_after (update_information 0 1 world0))
       = Inr (world_after (update_information 0 1 world0))"
  by (simp add: update_information_def notify_def observers_of_def print_def world0_def
        raised_def world_after_def state_of_def py_eq_def py_ge_def)

text \<open>
  Claim C8, amended: when \<^verbatim>\<open>update\<close> of a \<^verbatim>\<open>DriverObserver\<close> or an
  \<^verbatim>\<open>OperatorObserver\<close> runs with a manager whose state is the integer \<open>s\<close>, the
  observer reacts (prints its line) exactly when \<open>s = 0\<close> or \<open>s \<ge> 2\<close>, so not in
  state 1; with the state \<^verbatim>\<open>None\<close> the comparison raises \<^verbatim>\<open>TypeError\<close> and
  nothing is printed.
\<close>

theorem C8_driver_operator_guard:
  "update DriverObserver nm w =
     (case state_of nm w of
        None \<Rightarrow> Inl (TypeError, w)
      | Some s \<Rightarrow> Inr (if s = 0 \<or> 2 \<le> s
                        then print ''DriverObserver: Reacted to the event'' w else w))
   \<and> update OperatorObserver nm w =
     (case state_of nm w of
        None \<Rightarrow> Inl (TypeError, w)
      | Some s \<Rightarrow> Inr (if s = 0 \<or> 2 \<le> s
                        then print ''OperatorObserver: Reacted to the event'' w else w))"
  by (simp add: py_eq_def py_ge_def split: option.splits)

text \<open>
  Claim C9: with at least one observer attached, \<^verbatim>\<open>notify\<close> raises
  \<^verbatim>\<open>TypeError\<close> on every call, at the first \<^verbatim>\<open>observer.update()\<close>, which passes
  no argument to a method that requires one; so does \<^verbatim>\<open>update_information\<close>, after
  it has set the state and printed its two lines. No observer has reacted: standard
  output ends with the line \<^verbatim>\<open>notify\<close> prints before its loop.
\<close>

theorem C9_notify_raises_TypeError:
  "observers_of self w \<noteq> [] \<Longrightarrow>
     notify self w
       = Inl (TypeError,
              (print ''NotificationManager: Notifying observers...'' w)
                \<lparr>update_calls := update_calls w @ [hd (observers_of self w)]\<rparr>)
     \<and> raised (update_information self r w) = Some TypeError
     \<and> stdout (world_after (update_information self r w))
         = stdout w @ [CHR 0x0A # ''NotificationManager: location updated.'',
                       ''NotificationManager: My state has just changed to: '' @ str_int r,
                       ''NotificationManager: Notifying observers...'']"
  by (simp add: notify_def update_information_def observers_of_def print_def
        for_each_notify_step_nonempty raised_def world_after_def state_of_def str_state_def)

theorem C9_notify_raises_TypeError_witness:
  "raised (notify 0 (attach 0 (1, CustomerObserver) world0)) = Some TypeError
   \<and> raised (update_information 0 2 (attach 0 (1, CustomerObserver) world0)) = Some TypeError
   \<and> stdout (world_after (update_information 0 2 (attach 0 (1, CustomerObserver) world0)))
       = [''NotificationManager: Attached an observer.'',
          CHR 0x0A # ''NotificationManager: location updated.'',
          ''NotificationManager: My state has just changed to: 2'',
          ''NotificationManager: Notifying observers...'']"
  using C9_notify_raises_TypeError [of 0 "attach 0 (1, CustomerObserver) world0" 2]
  by (simp add: attach_def observers_of_def print_def world0_def raised_def
        str_int_def str_nat.simps)

text \<open>
  Claim C10: the subscriber list belongs to the class, not to a manager. After
  \<^verbatim>\<open>attach\<close> through a manager \<open>m1\<close>, the observer is in the list that any
  manager \<open>m2\<close> reads, which is the list \<open>m1\<close> reads, and \<^verbatim>\<open>notify\<close> on
  either manager runs over that list: it makes its call on the first entry of the list
  as \<open>m1\<close> has extended it, which is the attached observer itself when the list was
  empty before.
\<close>

theorem C10_observers_shared:
  "ob \<in> set (observers_of m2 (attach m1 ob w))
   \<and> observers_of m2 (attach m1 ob w) = observers_of m1 (attach m1 ob w)
   \<and> observers_of m2 (attach m1 ob w) = observers_of m2 w @ [ob]
   \<and> notify m2 (attach m1 ob w) = notify m1 (attach m1 ob w)
   \<and> update_calls (world_after (notify m2 (attach m1 ob w)))
       = update_calls w @ [hd (observers w @ [ob])]
   \<and> update_calls (world_after (notify m1 (attach m1 ob w)))
       = update_calls w @ [hd (observers w @ [ob])]
   \<and> raised (notify m2 (attach m1 ob w)) = Some TypeError"
proof -
  have obs: "observers (attach m1 ob w) = observers w @ [ob]"
    and calls: "update_calls (attach m1 ob w) = update_calls w"
    by (simp_all add: attach_def observers_of_def print_def)
  have ne: "observers (attach m1 ob w) \<noteq> []"
    using obs by simp
  have "update_calls (world_after (notify m (attach m1 ob w)))
          = update_calls w @ [hd (observers w @ [ob])]
        \<and> raised (notify m (attach m1 ob w)) = Some TypeError" for m
    using notify_nonempty [OF ne, of m] obs calls
    by (simp add: world_after_def raised_def)
  then show ?thesis
    by (simp add: attach_def observers_of_def notify_def print_def)
qed

theorem C10_observers_shared_witness:
  "observers_of 1 (attach 0 (7, OperatorObserver) world0) = [(7, OperatorObserver)]
   \<and> update_calls (world_after (notify 1 (attach 0 (7, OperatorObserver) world0)))
       = [(7, OperatorObserver)]"
  using C10_observers_shared [of "(7, OperatorObserver)" 1 0 world0]
  by (simp add: observers_of_def world0_def)

end
